theory Spec2Isabelle
  imports Complex_Main
begin

section \<open>Cart, stock and order services of the store backend\<close>

text \<open>
  A shallow embedding of \<^verbatim>\<open>services/cartService.js\<close>, \<^verbatim>\<open>services/productService.js\<close>,
  \<^verbatim>\<open>services/orderService.js\<close>, the merge handler of \<^verbatim>\<open>controllers/cartController.js\<close> and the
  order schema method \<^verbatim>\<open>updateStatus\<close>.

  Conventions of the embedding:
  \<^item> The three stores (the Product collection, the Order collection, the Redis cart cache) are
    fields of one record \<open>db\<close> that every operation takes and returns; a thrown \<^verbatim>\<open>Error\<close> is the
    \<open>Inl\<close> branch of the outcome, returned together with the store as it is at the throw.
  \<^item> Quantities and stock are \<open>int\<close> (the whole numbers the request schemas admit). Prices and
    amounts are JavaScript numbers: the real value of a double, with every \<^verbatim>\<open>+\<close> and \<^verbatim>\<open>*\<close> of the
    source rounded to the nearest double (\<open>num_add\<close>, \<open>num_mul\<close>); overflow, subnormal
    numbers and NaN are outside the model.
  \<^item> \<^verbatim>\<open>new Date()\<close> is the parameter \<open>now\<close> (seconds); a Redis entry carries its expiry time and
    is invisible to \<^verbatim>\<open>get\<close> once it has expired. The key \<^verbatim>\<open>cart:<identifier>\<close> is represented by
    the identifier.
  \<^item> A new Order document gets the next free position of the collection as its \<^verbatim>\<open>_id\<close>.
    \<^verbatim>\<open>save()\<close> of an Order validates the document against the schema before anything is
    written; apart from that, store round trips never fail.
\<close>

subsection \<open>JavaScript numbers\<close>

text \<open>
  A finite double is represented by its real value. \<open>fl x\<close> is the double nearest to \<open>x\<close>, ties
  going to the even significand: \<open>binade x\<close> is the \<open>k\<close> with \<open>2^k \<le> |x| < 2^(k+1)\<close>, the
  significand has 53 bits, so \<open>x\<close> is rounded to a multiple of \<open>2^(k-52)\<close>.
\<close>

fun bitLength :: "nat \<Rightarrow> nat" where
  "bitLength n = (if n = 0 then 0 else Suc (bitLength (n div 2)))"

declare bitLength.simps [simp del]

definition binade :: "real \<Rightarrow> int" where
  "binade x =
     (if 1 \<le> \<bar>x\<bar> then int (bitLength (nat \<lfloor>\<bar>x\<bar>\<rfloor>)) - 1
      else - int (bitLength (nat (\<lceil>1 / \<bar>x\<bar>\<rceil> - 1))))"

definition scale2 :: "int \<Rightarrow> real \<Rightarrow> real" where
  "scale2 e x = (if 0 \<le> e then x * 2 ^ nat e else x / 2 ^ nat (- e))"

definition roundHalfEven :: "real \<Rightarrow> int" where
  "roundHalfEven x =
     (let f = \<lfloor>x\<rfloor>; d = x - of_int f in
      if d < 1 / 2 then f
      else if 1 / 2 < d then f + 1
      else if even f then f else f + 1)"

definition fl :: "real \<Rightarrow> real" where
  "fl x =
     (if x = 0 then 0
      else let e = binade x - 52 in scale2 e (of_int (roundHalfEven (scale2 (- e) x))))"

text \<open>The operators \<^verbatim>\<open>+\<close> and \<^verbatim>\<open>*\<close> on numbers.\<close>

definition num_add :: "real \<Rightarrow> real \<Rightarrow> real" where
  "num_add a b = fl (a + b)"

definition num_mul :: "real \<Rightarrow> real \<Rightarrow> real" where
  "num_mul a b = fl (a * b)"

subsection \<open>Data\<close>

type_synonym objectId = string

record product =
  name :: string
  price :: real
  discountPrice :: real
  stock :: int
  isActive :: bool
  images :: "string list"

record cart_item =
  ci_product :: objectId
  ci_name :: string
  ci_price :: real
  ci_quantity :: int
  ci_image :: "string option"

record cart =
  items :: "cart_item list"
  totalAmount :: real
  totalItems :: int
  lastUpdated :: nat

record order_item =
  oi_product :: objectId
  oi_name :: string
  oi_quantity :: int
  oi_price :: real
  oi_total :: real

datatype order_status = Pending | Confirmed | Processing | Shipped | Delivered | Cancelled

datatype payment_status = PaymentPending | PaymentCompleted | PaymentFailed | PaymentRefunded

type_synonym address = string

record order =
  order_id :: nat
  orderNumber :: "string option"
  user :: string
  order_items :: "order_item list"
  shippingAddress :: address
  billingAddress :: address
  payment_method :: string
  payment_status :: payment_status
  status :: order_status
  statusHistory :: "(order_status \<times> nat) list"
  subtotal :: real
  shipping_cost :: real
  shipping_method :: string
  tax :: real
  total :: real
  order_notes :: "string option"
  deliveredAt :: "nat option"
  cancelledAt :: "nat option"
  cancelledReason :: "string option"

text \<open>
  An Order document in memory: the schema paths, and the properties assigned to the object
  that the schema does not declare. Only the schema paths are written by \<^verbatim>\<open>save()\<close>.
\<close>

type_synonym order_doc = "order \<times> (string \<times> string) list"

record order_data =
  od_shippingAddress :: address
  od_billingAddress :: "address option"
  od_paymentMethod :: string
  od_shippingMethod :: "string option"
  od_notes :: "string option"

record db =
  products :: "objectId \<rightharpoonup> product"
  orders :: "order list"
  redis :: "string \<rightharpoonup> nat \<times> cart"

datatype error =
    ProductNotFound
  | InsufficientStock
  | ProductNotFoundInCart
  | CartIsEmpty
  | OrderProductNotFound string
  | OrderInsufficientStock string
  | StockProductNotFound
  | OrderNotFound
  | OrderCannotBeCancelled
  | ValidationError

subsection \<open>Product model and ProductService.updateStock\<close>

text \<open>The virtual \<^verbatim>\<open>finalPrice\<close>: \<^verbatim>\<open>this.discountPrice || this.price\<close> (0 is falsy).\<close>

definition finalPrice :: "product \<Rightarrow> real" where
  "finalPrice p = (if discountPrice p \<noteq> 0 then discountPrice p else price p)"

definition updateStock :: "db \<Rightarrow> objectId \<Rightarrow> int \<Rightarrow> (error + int) \<times> db" where
  "updateStock st productId quantity =
     (case products st productId of
        None \<Rightarrow> (Inl StockProductNotFound, st)
      | Some p \<Rightarrow>
          (let newStock = stock p + quantity in
           if newStock < 0 then (Inl InsufficientStock, st)
           else (Inr newStock,
                 st\<lparr>products := (products st)(productId \<mapsto> p\<lparr>stock := newStock\<rparr>)\<rparr>)))"

definition available :: "db \<Rightarrow> objectId \<Rightarrow> int option" where
  "available st productId = map_option stock (products st productId)"

text \<open>
  A sequence of \<^verbatim>\<open>updateStock\<close> calls, each with a product id and a signed amount; a call that
  throws leaves the store as it was and the next call runs.
\<close>

fun stockCalls :: "db \<Rightarrow> (objectId \<times> int) list \<Rightarrow> db" where
  "stockCalls st [] = st"
| "stockCalls st ((productId, quantity) # rest) =
     stockCalls (snd (updateStock st productId quantity)) rest"

definition stock_nonneg :: "db \<Rightarrow> bool" where
  "stock_nonneg st = (\<forall>productId p. products st productId = Some p \<longrightarrow> 0 \<le> stock p)"

subsection \<open>CartService\<close>

definition redis_get :: "nat \<Rightarrow> db \<Rightarrow> string \<Rightarrow> cart option" where
  "redis_get now st key =
     (case redis st key of
        None \<Rightarrow> None
      | Some (expiresAt, c) \<Rightarrow> if now < expiresAt then Some c else None)"

definition saveCartToRedis :: "nat \<Rightarrow> db \<Rightarrow> string \<Rightarrow> cart \<Rightarrow> db" where
  "saveCartToRedis now st identifier c = st\<lparr>redis := (redis st)(identifier \<mapsto> (now + 3600, c))\<rparr>"

definition emptyCart :: "nat \<Rightarrow> cart" where
  "emptyCart now = \<lparr>items = [], totalAmount = 0, totalItems = 0, lastUpdated = now\<rparr>"

definition getCart :: "nat \<Rightarrow> db \<Rightarrow> string \<Rightarrow> cart \<times> db" where
  "getCart now st identifier =
     (case redis_get now st identifier of
        Some cachedCart \<Rightarrow> (cachedCart, st)
      | None \<Rightarrow> (emptyCart now, saveCartToRedis now st identifier (emptyCart now)))"

text \<open>\<^verbatim>\<open>Array.prototype.findIndex\<close>; \<open>None\<close> stands for the result -1.\<close>

fun findIndex :: "('a \<Rightarrow> bool) \<Rightarrow> 'a list \<Rightarrow> nat option" where
  "findIndex P [] = None"
| "findIndex P (x # xs) =
     (if P x then Some 0 else map_option Suc (findIndex P xs))"

definition calculateCartTotals :: "nat \<Rightarrow> cart \<Rightarrow> cart" where
  "calculateCartTotals now c =
     c\<lparr>totalItems := foldl (\<lambda>total item. total + ci_quantity item) 0 (items c),
       totalAmount :=
         foldl (\<lambda>total item. num_add total (num_mul (ci_price item) (of_int (ci_quantity item))))
           0 (items c),
       lastUpdated := now\<rparr>"

definition firstImage :: "product \<Rightarrow> string option" where
  "firstImage p = (case images p of [] \<Rightarrow> None | url # _ \<Rightarrow> if url = [] then None else Some url)"

definition addToCart :: "nat \<Rightarrow> db \<Rightarrow> string \<Rightarrow> objectId \<Rightarrow> int \<Rightarrow> (error + cart) \<times> db" where
  "addToCart now st identifier productId quantity =
     (case products st productId of
        None \<Rightarrow> (Inl ProductNotFound, st)
      | Some p \<Rightarrow>
          if \<not> isActive p then (Inl ProductNotFound, st)
          else if stock p < quantity then (Inl InsufficientStock, st)
          else
            (let (c, st1) = getCart now st identifier in
             case findIndex (\<lambda>item. ci_product item = productId) (items c) of
               Some existingItemIndex \<Rightarrow>
                 (let newQuantity = ci_quantity (items c ! existingItemIndex) + quantity in
                  if stock p < newQuantity then (Inl InsufficientStock, st1)
                  else
                    (let c' = calculateCartTotals now
                           (c\<lparr>items := (items c)[existingItemIndex :=
                                (items c ! existingItemIndex)\<lparr>ci_quantity := newQuantity\<rparr>]\<rparr>)
                     in (Inr c', saveCartToRedis now st1 identifier c')))
             | None \<Rightarrow>
                 (let c' = calculateCartTotals now
                        (c\<lparr>items := items c @
                             [\<lparr>ci_product = productId, ci_name = name p, ci_price = finalPrice p,
                               ci_quantity = quantity, ci_image = firstImage p\<rparr>]\<rparr>)
                  in (Inr c', saveCartToRedis now st1 identifier c'))))"

definition updateCartItem :: "nat \<Rightarrow> db \<Rightarrow> string \<Rightarrow> objectId \<Rightarrow> int \<Rightarrow> (error + cart) \<times> db" where
  "updateCartItem now st identifier productId quantity =
     (let (c, st1) = getCart now st identifier in
      case findIndex (\<lambda>item. ci_product item = productId) (items c) of
        None \<Rightarrow> (Inl ProductNotFoundInCart, st1)
      | Some itemIndex \<Rightarrow>
          if quantity \<le> 0 then
            (let c' = calculateCartTotals now
                   (c\<lparr>items := take itemIndex (items c) @ drop (Suc itemIndex) (items c)\<rparr>)
             in (Inr c', saveCartToRedis now st1 identifier c'))
          else
            (case products st1 productId of
               Some p \<Rightarrow>
                 if stock p < quantity then (Inl InsufficientStock, st1)
                 else
                   (let c' = calculateCartTotals now
                          (c\<lparr>items := (items c)[itemIndex :=
                               (items c ! itemIndex)\<lparr>ci_quantity := quantity\<rparr>]\<rparr>)
                    in (Inr c', saveCartToRedis now st1 identifier c'))
             | None \<Rightarrow>
                 (let c' = calculateCartTotals now
                        (c\<lparr>items := (items c)[itemIndex :=
                             (items c ! itemIndex)\<lparr>ci_quantity := quantity\<rparr>]\<rparr>)
                  in (Inr c', saveCartToRedis now st1 identifier c'))))"

definition removeFromCart :: "nat \<Rightarrow> db \<Rightarrow> string \<Rightarrow> objectId \<Rightarrow> (error + cart) \<times> db" where
  "removeFromCart now st identifier productId =
     (let (c, st1) = getCart now st identifier;
          c' = calculateCartTotals now
                 (c\<lparr>items := filter (\<lambda>item. ci_product item \<noteq> productId) (items c)\<rparr>)
      in (Inr c', saveCartToRedis now st1 identifier c'))"

definition clearCart :: "nat \<Rightarrow> db \<Rightarrow> string \<Rightarrow> (error + cart) \<times> db" where
  "clearCart now st identifier =
     (Inr (emptyCart now), saveCartToRedis now st identifier (emptyCart now))"

subsection \<open>CartController.mergeCart\<close>

datatype merge_response = MergeBadRequest | MergeSuccess cart | MergeError

text \<open>The loop \<^verbatim>\<open>for (const item of sessionCart.items) await CartService.addToCart(...)\<close>.\<close>

fun mergeItems :: "nat \<Rightarrow> db \<Rightarrow> string \<Rightarrow> cart_item list \<Rightarrow> error option \<times> db" where
  "mergeItems now st userId [] = (None, st)"
| "mergeItems now st userId (item # rest) =
     (case addToCart now st userId (ci_product item) (ci_quantity item) of
        (Inl e, st') \<Rightarrow> (Some e, st')
      | (Inr _, st') \<Rightarrow> mergeItems now st' userId rest)"

definition mergeCart :: "nat \<Rightarrow> db \<Rightarrow> string \<Rightarrow> string option \<Rightarrow> merge_response \<times> db" where
  "mergeCart now st userId sessionId =
     (case sessionId of
        None \<Rightarrow> (MergeBadRequest, st)
      | Some sid \<Rightarrow>
          if sid = [] then (MergeBadRequest, st)
          else
            (let (sessionCart, st1) = getCart now st sid in
             if length (items sessionCart) > 0 then
               (case mergeItems now st1 userId (items sessionCart) of
                  (Some e, st2) \<Rightarrow> (MergeError, st2)
                | (None, st2) \<Rightarrow>
                    (let st3 = snd (clearCart now st2 sid);
                         (updatedCart, st4) = getCart now st3 userId
                     in (MergeSuccess updatedCart, st4)))
             else
               (let (updatedCart, st4) = getCart now st1 userId
                in (MergeSuccess updatedCart, st4))))"



text \<open>
  The totals a cart should carry: the number of items is the sum of the quantities; the
  amount is the sum, taken from the first line on in double arithmetic, of the products of
  unit price and quantity.
\<close>

definition doubleSum :: "real list \<Rightarrow> real" where
  "doubleSum xs = foldl num_add 0 xs"

definition cart_totals_ok :: "cart \<Rightarrow> bool" where
  "cart_totals_ok c \<longleftrightarrow>
     totalAmount c =
       doubleSum (map (\<lambda>item. num_mul (ci_price item) (of_int (ci_quantity item))) (items c)) \<and>
     totalItems c = (\<Sum>item\<leftarrow>items c. ci_quantity item)"


subsection \<open>Order model and OrderService\<close>

definition Order_findById :: "db \<Rightarrow> nat \<Rightarrow> order option" where
  "Order_findById st orderId =
     (if orderId < length (orders st) then Some (orders st ! orderId) else None)"

text \<open>
  \<^verbatim>\<open>save()\<close> first validates the document: \<open>orderNumber\<close> is a required string path, so a
  document without one (or with the empty string) is rejected with a ValidationError and
  nothing is written. The other required paths are fields that every \<open>order\<close> value has.
\<close>

definition Order_valid :: "order \<Rightarrow> bool" where
  "Order_valid doc = (case orderNumber doc of None \<Rightarrow> False | Some n \<Rightarrow> n \<noteq> [])"

text \<open>
  The \<^verbatim>\<open>pre('save')\<close> hook of the schema, which fills in a generated order number when the
  document has none. It runs after the validation, so it only ever sees documents that have
  a number and leaves them as they are (\<open>preSaveHook_valid\<close> below); \<open>Order_save\<close> therefore
  writes the validated document itself.
\<close>

definition preSaveHook :: "string \<Rightarrow> order \<Rightarrow> order" where
  "preSaveHook generated this =
     (case orderNumber this of
        None \<Rightarrow> this\<lparr>orderNumber := Some generated\<rparr>
      | Some n \<Rightarrow> if n = [] then this\<lparr>orderNumber := Some generated\<rparr> else this)"

definition Order_save :: "db \<Rightarrow> order \<Rightarrow> error + db" where
  "Order_save st doc =
     (if \<not> Order_valid doc then Inl ValidationError
      else if order_id doc < length (orders st)
      then Inr (st\<lparr>orders := (orders st)[order_id doc := doc]\<rparr>)
      else Inr (st\<lparr>orders := orders st @ [doc]\<rparr>))"

definition calculateShipping :: "real \<Rightarrow> address \<Rightarrow> real" where
  "calculateShipping sub addr = (if sub \<ge> 500 then 0 else fl 29.99)"

definition calculateTax :: "real \<Rightarrow> address \<Rightarrow> real" where
  "calculateTax sub addr = num_mul sub (fl 0.20)"

text \<open>
  The first loop of \<^verbatim>\<open>createOrder\<close>: every cart line is checked against the catalog and turned
  into an order line; the accumulators are \<^verbatim>\<open>orderItems\<close> and \<^verbatim>\<open>subtotal\<close>.
\<close>

fun prepareItems ::
  "db \<Rightarrow> cart_item list \<Rightarrow> order_item list \<times> real \<Rightarrow> error + order_item list \<times> real" where
  "prepareItems st [] acc = Inr acc"
| "prepareItems st (item # rest) (orderItems, sub) =
     (case products st (ci_product item) of
        None \<Rightarrow> Inl (OrderProductNotFound (ci_name item))
      | Some p \<Rightarrow>
          if \<not> isActive p then Inl (OrderProductNotFound (ci_name item))
          else if stock p < ci_quantity item then Inl (OrderInsufficientStock (name p))
          else
            (let itemTotal = num_mul (finalPrice p) (of_int (ci_quantity item)) in
             prepareItems st rest
               (orderItems @
                  [\<lparr>oi_product = ci_product item, oi_name = name p,
                    oi_quantity = ci_quantity item, oi_price = finalPrice p,
                    oi_total = itemTotal\<rparr>],
                num_add sub itemTotal)))"

text \<open>
  The loops \<^verbatim>\<open>for (const item of ...) await ProductService.updateStock(item.product, q)\<close> of
  \<^verbatim>\<open>createOrder\<close> (\<open>q = -item.quantity\<close>) and \<^verbatim>\<open>cancelOrder\<close> (\<open>q = item.quantity\<close>): the first
  call that throws ends the loop.
\<close>

fun decrementStock :: "db \<Rightarrow> order_item list \<Rightarrow> error option \<times> db" where
  "decrementStock st [] = (None, st)"
| "decrementStock st (item # rest) =
     (case updateStock st (oi_product item) (- oi_quantity item) of
        (Inl e, st') \<Rightarrow> (Some e, st')
      | (Inr _, st') \<Rightarrow> decrementStock st' rest)"

fun restoreStock :: "db \<Rightarrow> order_item list \<Rightarrow> error option \<times> db" where
  "restoreStock st [] = (None, st)"
| "restoreStock st (item # rest) =
     (case updateStock st (oi_product item) (oi_quantity item) of
        (Inl e, st') \<Rightarrow> (Some e, st')
      | (Inr _, st') \<Rightarrow> restoreStock st' rest)"

text \<open>
  \<^verbatim>\<open>new Order({...})\<close> as \<^verbatim>\<open>createOrder\<close> calls it, with the schema defaults for the paths it does
  not give. The call gives no \<^verbatim>\<open>orderNumber\<close> and the schema has no default for it.
\<close>

definition newOrder ::
  "nat \<Rightarrow> string \<Rightarrow> order_data \<Rightarrow> order_item list \<Rightarrow> real \<Rightarrow> real \<Rightarrow> real \<Rightarrow> real \<Rightarrow> order" where
  "newOrder newId userId orderData orderItems sub shippingCost tx tot =
     \<lparr>order_id = newId,
      orderNumber = None,
      user = userId,
      order_items = orderItems,
      shippingAddress = od_shippingAddress orderData,
      billingAddress =
        (case od_billingAddress orderData of
           Some b \<Rightarrow> b
         | None \<Rightarrow> od_shippingAddress orderData),
      payment_method = od_paymentMethod orderData,
      payment_status = PaymentPending,
      status = Pending,
      statusHistory = [],
      subtotal = sub,
      shipping_cost = shippingCost,
      shipping_method =
        (case od_shippingMethod orderData of
           Some m \<Rightarrow> if m = [] then ''standard'' else m
         | None \<Rightarrow> ''standard''),
      tax = tx,
      total = tot,
      order_notes = od_notes orderData,
      deliveredAt = None,
      cancelledAt = None,
      cancelledReason = None\<rparr>"

definition createOrder ::
  "nat \<Rightarrow> db \<Rightarrow> string \<Rightarrow> order_data \<Rightarrow> (error + order) \<times> db" where
  "createOrder now st userId orderData =
     (let (c, st1) = getCart now st userId in
      if items c = [] then (Inl CartIsEmpty, st1)
      else
        (case prepareItems st1 (items c) ([], 0) of
           Inl e \<Rightarrow> (Inl e, st1)
         | Inr (orderItems, sub) \<Rightarrow>
             (let shippingCost = calculateShipping sub (od_shippingAddress orderData);
                  tx = calculateTax sub (od_shippingAddress orderData);
                  tot = num_add (num_add sub shippingCost) tx;
                  doc = newOrder (length (orders st1)) userId orderData
                          orderItems sub shippingCost tx tot
              in case Order_save st1 doc of
                   Inl e \<Rightarrow> (Inl e, st1)
                 | Inr st2 \<Rightarrow>
                     (case decrementStock st2 orderItems of
                        (Some e, st3) \<Rightarrow> (Inl e, st3)
                      | (None, st3) \<Rightarrow> (Inr doc, snd (clearCart now st3 userId))))))"

text \<open>
  The schema method \<^verbatim>\<open>updateStatus\<close>. Its first statement is
  \<^verbatim>\<open>(this.status = newStatus, this.statusHistory.push[{status, note, updatedAt}])\<close>: the
  brackets read a property of the function \<^verbatim>\<open>push\<close>, they do not call it, so the statement
  assigns \<open>status\<close> and leaves \<open>statusHistory\<close> as it is.
\<close>

definition updateStatus :: "nat \<Rightarrow> order \<Rightarrow> order_status \<Rightarrow> string \<Rightarrow> order" where
  "updateStatus now this newStatus note =
     (let this1 = this\<lparr>status := newStatus\<rparr> in
      if newStatus = Delivered then this1\<lparr>deliveredAt := Some now\<rparr>
      else if newStatus = Cancelled then this1\<lparr>cancelledAt := Some now\<rparr>
      else this1)"

definition updateOrderStatus ::
  "nat \<Rightarrow> db \<Rightarrow> nat \<Rightarrow> order_status \<Rightarrow> string \<Rightarrow> (error + order) \<times> db" where
  "updateOrderStatus now st orderId newStatus note =
     (case Order_findById st orderId of
        None \<Rightarrow> (Inl OrderNotFound, st)
      | Some doc \<Rightarrow>
          (let doc' = updateStatus now doc newStatus note
           in case Order_save st doc' of
                Inl e \<Rightarrow> (Inl e, st)
              | Inr st' \<Rightarrow> (Inr doc', st')))"

text \<open>
  \<^verbatim>\<open>cancelOrder\<close> assigns \<^verbatim>\<open>order.cancelReason\<close>; the schema declares \<^verbatim>\<open>cancelledReason\<close>, so the
  assignment adds a property to the object in memory and \<^verbatim>\<open>save()\<close> writes the schema paths.
\<close>

definition cancelOrder ::
  "nat \<Rightarrow> db \<Rightarrow> nat \<Rightarrow> string \<Rightarrow> string \<Rightarrow> (error + order_doc) \<times> db" where
  "cancelOrder now st orderId userId reason =
     (case (case Order_findById st orderId of
              Some doc \<Rightarrow> if user doc = userId then Some doc else None
            | None \<Rightarrow> None) of
        None \<Rightarrow> (Inl OrderNotFound, st)
      | Some doc \<Rightarrow>
          if status doc \<notin> {Pending, Confirmed} then (Inl OrderCannotBeCancelled, st)
          else
            (case restoreStock st (order_items doc) of
               (Some e, st1) \<Rightarrow> (Inl e, st1)
             | (None, st1) \<Rightarrow>
                 (let doc' = doc\<lparr>status := Cancelled, cancelledAt := Some now\<rparr>;
                      props = [(''cancelReason'', reason)]
                  in case Order_save st1 doc' of
                       Inl e \<Rightarrow> (Inl e, st1)
                     | Inr st2 \<Rightarrow> (Inr (doc', props), st2))))"

subsection \<open>Reference notions used in the statements\<close>

text \<open>The quantity a cart holds for a product id: that of its line, 0 when it has none.\<close>

fun existingQuantity :: "cart_item list \<Rightarrow> objectId \<Rightarrow> int" where
  "existingQuantity [] productId = 0"
| "existingQuantity (item # rest) productId =
     (if ci_product item = productId then ci_quantity item else existingQuantity rest productId)"

text \<open>
  Adding a line as the specification words it: the quantity is added to the existing line
  for the product id, or the line is appended when there is none.
\<close>

fun addLine_spec :: "cart_item list \<Rightarrow> cart_item \<Rightarrow> cart_item list" where
  "addLine_spec [] new = [new]"
| "addLine_spec (item # rest) new =
     (if ci_product item = ci_product new
      then item\<lparr>ci_quantity := ci_quantity item + ci_quantity new\<rparr> # rest
      else item # addLine_spec rest new)"

subsection \<open>A small store for concrete runs\<close>

definition lamp :: product where
  "lamp = \<lparr>name = ''Lamp'', price = 100, discountPrice = 80, stock = 3, isActive = True,
           images = [''lamp.png'']\<rparr>"

definition desk :: product where
  "desk = \<lparr>name = ''Desk'', price = 450, discountPrice = 0, stock = 10, isActive = True,
           images = []\<rparr>"

definition lampLine :: "int \<Rightarrow> cart_item" where
  "lampLine q = \<lparr>ci_product = ''A'', ci_name = ''Lamp'', ci_price = 70, ci_quantity = q,
                 ci_image = Some ''lamp.png''\<rparr>"

definition deskLine :: "int \<Rightarrow> cart_item" where
  "deskLine q = \<lparr>ci_product = ''B'', ci_name = ''Desk'', ci_price = 450, ci_quantity = q,
                 ci_image = None\<rparr>"

definition cartOf :: "cart_item list \<Rightarrow> cart" where
  "cartOf ls =
     calculateCartTotals 0 \<lparr>items = ls, totalAmount = 0, totalItems = 0, lastUpdated = 0\<rparr>"

text \<open>
  The catalog holds the lamp (id \<open>A\<close>, stock 3, discounted to 80) and the desk (id \<open>B\<close>,
  stock 10, no discount); the carts given are cached until time 3600; no order exists.
\<close>

definition shop :: "(string \<times> cart_item list) list \<Rightarrow> db" where
  "shop carts = \<lparr>products = [''A'' \<mapsto> lamp, ''B'' \<mapsto> desk], orders = [],
                 redis = map_of (map (\<lambda>(k, ls). (k, (3600, cartOf ls))) carts)\<rparr>"

definition checkout :: order_data where
  "checkout = \<lparr>od_shippingAddress = ''1 Main St'', od_billingAddress = None,
               od_paymentMethod = ''credit_card'', od_shippingMethod = None, od_notes = None\<rparr>"

text \<open>
  A store holding one pending order of user \<open>u1\<close>, order 0 with lines \<open>[(A, 2), (B, 1)]\<close>;
  the stock is 1 lamp and 9 desks.
\<close>

definition placed :: db where
  "placed =
     \<lparr>products = [''A'' \<mapsto> lamp\<lparr>stock := 1\<rparr>, ''B'' \<mapsto> desk\<lparr>stock := 9\<rparr>],
      orders = [(newOrder 0 ''u1'' checkout
                  [\<lparr>oi_product = ''A'', oi_name = ''Lamp'', oi_quantity = 2, oi_price = 80,
                    oi_total = 160\<rparr>,
                   \<lparr>oi_product = ''B'', oi_name = ''Desk'', oi_quantity = 1, oi_price = 450,
                    oi_total = 450\<rparr>] 610 0 122 732)\<lparr>orderNumber := Some ''ORD-1''\<rparr>],
      redis = [''u1'' \<mapsto> (3610, emptyCart 10)]\<rparr>"



lemmas shop_defs =
  shop_def cartOf_def lamp_def desk_def lampLine_def deskLine_def checkout_def

lemmas service_defs =
  getCart_def redis_get_def saveCartToRedis_def emptyCart_def calculateCartTotals_def
  finalPrice_def firstImage_def updateStock_def Order_save_def Order_valid_def
  Order_findById_def newOrder_def num_add_def num_mul_def Let_def

lemmas fl_eval = fl_def binade_def scale2_def roundHalfEven_def bitLength.simps

section \<open>Rounding to doubles\<close>

lemma bitLength_le: "n < 2 ^ w \<Longrightarrow> bitLength n \<le> w"
proof (induction w arbitrary: n)
  case 0
  then show ?case by (simp add: bitLength.simps)
next
  case (Suc w)
  show ?case
  proof (cases "n = 0")
    case True
    then show ?thesis by (simp add: bitLength.simps)
  next
    case False
    from Suc.prems have "n div 2 < 2 ^ w" by simp
    then have "bitLength (n div 2) \<le> w" by (rule Suc.IH)
    with False show ?thesis by (subst bitLength.simps) simp
  qed
qed

lemma bitLength_bounds: "0 < n \<Longrightarrow> 2 ^ (bitLength n - 1) \<le> n \<and> n < 2 ^ bitLength n"
proof (induction n rule: bitLength.induct)
  case (1 n)
  show ?case
  proof (cases "n div 2 = 0")
    case True
    with "1.prems" have "n = 1" by (simp add: div_eq_0_iff) 
    then show ?thesis by (simp add: bitLength.simps)
  next
    case False
    with "1.IH" "1.prems" have ih: "2 ^ (bitLength (n div 2) - 1) \<le> n div 2"
      "n div 2 < 2 ^ bitLength (n div 2)" by auto
    have pos: "0 < bitLength (n div 2)"
      using False by (subst bitLength.simps) simp
    have b: "bitLength n = Suc (bitLength (n div 2))"
      using "1.prems" by (subst bitLength.simps) simp
    from pos have "(2::nat) ^ bitLength (n div 2) = 2 * 2 ^ (bitLength (n div 2) - 1)"
      by (cases "bitLength (n div 2)") simp_all
    with ih show ?thesis unfolding b by simp linarith
  qed
qed

text \<open>\<open>binade\<close> finds the power of two below the magnitude.\<close>

lemma binade_bounds:
  assumes "x \<noteq> 0"
  shows "scale2 (binade x) 1 \<le> \<bar>x\<bar> \<and> \<bar>x\<bar> < scale2 (binade x + 1) 1"
proof (cases "1 \<le> \<bar>x\<bar>")
  case True
  define n where "n = nat \<lfloor>\<bar>x\<bar>\<rfloor>"
  have n1: "0 < n" using True by (simp add: n_def)
  have nr: "real n = of_int \<lfloor>\<bar>x\<bar>\<rfloor>"
    using True by (simp add: n_def)
  have lo: "real n \<le> \<bar>x\<bar>" and hi: "\<bar>x\<bar> < real n + 1"
    unfolding nr by linarith+
  from bitLength_bounds [OF n1]
  have b: "2 ^ (bitLength n - 1) \<le> n" "n < 2 ^ bitLength n" by simp_all
  have pos: "0 < bitLength n" using n1 by (subst bitLength.simps) simp
  have k: "binade x = int (bitLength n) - 1"
    using True by (simp add: binade_def n_def)
  have "(2::real) ^ (bitLength n - 1) \<le> real n"
    using b(1) by (metis of_nat_le_iff of_nat_numeral of_nat_power)
  then have l: "(2::real) ^ (bitLength n - 1) \<le> \<bar>x\<bar>" using lo by linarith
  have "real n + 1 \<le> 2 ^ bitLength n"
    using b(2) by (metis Suc_leI of_nat_Suc of_nat_le_iff of_nat_numeral of_nat_power add.commute)
  then have u: "\<bar>x\<bar> < 2 ^ bitLength n" using hi by linarith
  have n0: "nat (int (bitLength n) - 1) = bitLength n - 1" by simp
  show ?thesis
    using l u pos by (simp add: k scale2_def n0 nat_diff_distrib)
next
  case False
  define m where "m = nat (\<lceil>1 / \<bar>x\<bar>\<rceil> - 1)"
  have xpos: "0 < \<bar>x\<bar>" using assms by simp
  from False have small: "\<bar>x\<bar> < 1" by simp
  then have big: "1 < 1 / \<bar>x\<bar>" using xpos by simp
  then have c2: "2 \<le> \<lceil>1 / \<bar>x\<bar>\<rceil>" by linarith
  then have "0 < \<lceil>1 / \<bar>x\<bar>\<rceil> - 1" by linarith
  then have m1: "0 < m" by (simp only: m_def zero_less_nat_eq)
  have "int m = \<lceil>1 / \<bar>x\<bar>\<rceil> - 1"
    using c2 unfolding m_def by linarith
  then have "real_of_int (int m) = of_int (\<lceil>1 / \<bar>x\<bar>\<rceil> - 1)"
    by (simp only:)
  then have mr: "real m = of_int \<lceil>1 / \<bar>x\<bar>\<rceil> - 1"
    by simp
  have lo: "real m < 1 / \<bar>x\<bar>" and hi: "1 / \<bar>x\<bar> \<le> real m + 1"
    unfolding mr by linarith+
  from bitLength_bounds [OF m1]
  have b: "2 ^ (bitLength m - 1) \<le> m" "m < 2 ^ bitLength m" by simp_all
  have pos: "0 < bitLength m" using m1 by (subst bitLength.simps) simp
  have k: "binade x = - int (bitLength m)"
    using False by (simp add: binade_def m_def)
  have "real m + 1 \<le> 2 ^ bitLength m"
    using b(2) by (metis Suc_leI of_nat_Suc of_nat_le_iff of_nat_numeral of_nat_power add.commute)
  with hi have "1 / \<bar>x\<bar> \<le> 2 ^ bitLength m" by linarith
  then have l: "1 / 2 ^ bitLength m \<le> \<bar>x\<bar>"
    using xpos by (simp add: field_simps)
  have "(2::real) ^ (bitLength m - 1) \<le> real m"
    using b(1) by (metis of_nat_le_iff of_nat_numeral of_nat_power)
  with lo have "(2::real) ^ (bitLength m - 1) < 1 / \<bar>x\<bar>" by linarith
  then have u: "\<bar>x\<bar> < 1 / 2 ^ (bitLength m - 1)"
    using xpos by (simp add: field_simps)
  show ?thesis
  proof (cases "bitLength m = 1")
    case True
    with l u show ?thesis by (simp add: k scale2_def)
  next
    case False
    with pos have "1 < bitLength m" by simp
    then have "nat (int (bitLength m) - 1) = bitLength m - 1"
      and "\<not> 0 \<le> - int (bitLength m) + 1" by simp_all
    with l u pos show ?thesis by (simp add: k scale2_def)
  qed
qed

lemma roundHalfEven_of_int [simp]: "roundHalfEven (of_int m) = m"
  by (simp add: roundHalfEven_def)

lemma fl_of_int:
  assumes "\<bar>n\<bar> < 2 ^ 53"
  shows "fl (of_int n) = of_int n"
proof (cases "n = 0")
  case True
  then show ?thesis by (simp add: fl_def)
next
  case False
  have ar: "\<bar>real_of_int n\<bar> = of_int \<bar>n\<bar>" by simp
  from False have "1 \<le> \<bar>n\<bar>" by simp
  then have "(1::real) \<le> of_int \<bar>n\<bar>" by (simp only: of_int_1_le_iff)
  then have one: "1 \<le> \<bar>real_of_int n\<bar>" by (simp only: ar)
  have fa: "\<lfloor>\<bar>real_of_int n\<bar>\<rfloor> = \<bar>n\<bar>"
    by (simp only: ar floor_of_int)
  have "nat \<bar>n\<bar> < 2 ^ 53"
    using assms by (simp add: nat_less_iff)
  then have "bitLength (nat \<bar>n\<bar>) \<le> 53" by (rule bitLength_le)
  then have e: "binade (of_int n) - 52 \<le> 0"
    using one fa by (simp add: binade_def)
  define s where "s = nat (- (binade (of_int n) - 52))"
  have es: "binade (of_int n) - 52 = - int s"
    using e by (simp add: s_def)
  have up: "scale2 (int s) (of_int n) = of_int (n * 2 ^ s)"
    by (simp add: scale2_def)
  have down: "scale2 (- int s) (of_int (n * 2 ^ s)) = of_int n"
    by (cases "s = 0") (simp_all add: scale2_def)
  have "fl (of_int n) =
          scale2 (- int s) (of_int (roundHalfEven (scale2 (int s) (of_int n))))"
    using False by (simp add: fl_def Let_def es)
  also have "\<dots> = scale2 (- int s) (of_int (roundHalfEven (of_int (n * 2 ^ s))))"
    by (simp only: up)
  also have "\<dots> = scale2 (- int s) (of_int (n * 2 ^ s))"
    by (simp only: roundHalfEven_of_int)
  also have "\<dots> = of_int n"
    by (rule down)
  finally show ?thesis .
qed

lemma fl_numeral [simp]: "(numeral w :: int) < 2 ^ 53 \<Longrightarrow> fl (numeral w) = numeral w"
  using fl_of_int [of "numeral w"] by simp

lemma fl_0 [simp]: "fl 0 = 0"
  by (simp add: fl_def)

lemma fl_1 [simp]: "fl 1 = 1"
  using fl_of_int [of 1] by simp


lemma num_add_tenth_fifth: "num_add (fl 0.1) (fl 0.2) = 5404319552844596 / 2 ^ 54"
  by (simp add: num_add_def fl_eval Let_def)


lemma num_mul_hundred: "num_mul 100 (fl 4.35) = 7652600929320959 / 2 ^ 44"
  by (simp add: num_mul_def fl_eval Let_def)

lemma num_mul_tax_three: "num_mul 3 (fl 0.20) = 5404319552844596 / 2 ^ 53"
  by (simp add: num_mul_def fl_eval Let_def)

section \<open>Stock ledger\<close>

lemma updateStock_keeps_nonneg:
  "stock_nonneg st \<Longrightarrow> stock_nonneg (snd (updateStock st productId quantity))"
  by (auto simp: stock_nonneg_def updateStock_def Let_def split: option.splits)

lemma stockCalls_keeps_nonneg:
  "stock_nonneg st \<Longrightarrow> stock_nonneg (stockCalls st calls)"
proof (induction calls arbitrary: st)
  case Nil
  then show ?case by simp
next
  case (Cons call calls)
  obtain productId quantity where call: "call = (productId, quantity)"
    by (cases call)
  from Cons.prems have "stock_nonneg (snd (updateStock st productId quantity))"
    by (rule updateStock_keeps_nonneg)
  then show ?case
    unfolding call by (simp add: Cons.IH)
qed

text \<open>
  Claim C2. Starting from a catalog in which no stock is negative, after every sequence of
  \<^verbatim>\<open>updateStock\<close> calls (decrements are calls with a negative amount) the available quantity of
  every product is at least 0. A decrement by \<open>amount\<close> of an existing product throws
  "Insufficient stock" and leaves the store as it was when \<open>stock - amount\<close> is negative;
  otherwise it stores \<open>stock - amount\<close> and returns it.
\<close>

theorem stock_never_negative:
  assumes "stock_nonneg st"
  shows "(\<forall>productId q. available (stockCalls st calls) productId = Some q \<longrightarrow> 0 \<le> q) \<and>
         (\<forall>productId p amount. products st productId = Some p \<longrightarrow>
            (if stock p - amount < 0
             then updateStock st productId (- amount) = (Inl InsufficientStock, st)
             else updateStock st productId (- amount) =
                    (Inr (stock p - amount),
                     st\<lparr>products := (products st)(productId \<mapsto> p\<lparr>stock := stock p - amount\<rparr>)\<rparr>)))"
proof -
  have "stock_nonneg (stockCalls st calls)"
    using assms by (rule stockCalls_keeps_nonneg)
  then have a: "\<forall>productId q. available (stockCalls st calls) productId = Some q \<longrightarrow> 0 \<le> q"
    by (auto simp: stock_nonneg_def available_def)
  have b: "\<forall>productId p amount. products st productId = Some p \<longrightarrow>
            (if stock p - amount < 0
             then updateStock st productId (- amount) = (Inl InsufficientStock, st)
             else updateStock st productId (- amount) =
                    (Inr (stock p - amount),
                     st\<lparr>products := (products st)(productId \<mapsto> p\<lparr>stock := stock p - amount\<rparr>)\<rparr>))"
    by (simp add: updateStock_def Let_def)
  from a b show ?thesis by blast
qed

theorem stock_never_negative_witness:
  "stock_nonneg (shop []) \<and>
   available (stockCalls (shop []) [(''A'', - 2), (''A'', - 2), (''A'', 4)]) ''A'' = Some 5 \<and>
   updateStock (shop []) ''A'' (- 4) = (Inl InsufficientStock, shop []) \<and>
   fst (updateStock (shop []) ''A'' (- 3)) = Inr 0"
proof -
  have h: "stock_nonneg (shop [])"
    by (auto simp: stock_nonneg_def shop_defs split: if_splits)
  have run: "available (stockCalls (shop []) [(''A'', - 2), (''A'', - 2), (''A'', 4)]) ''A'' = Some 5"
    by (simp add: available_def shop_defs service_defs)
  have p: "products (shop []) ''A'' = Some lamp"
    by (simp add: shop_def)
  from stock_never_negative [OF h, of "[(''A'', - 2), (''A'', - 2), (''A'', 4)]"]
  have "\<forall>amount. (if stock lamp - amount < 0
             then updateStock (shop []) ''A'' (- amount) = (Inl InsufficientStock, shop [])
             else updateStock (shop []) ''A'' (- amount) =
                    (Inr (stock lamp - amount),
                     (shop [])\<lparr>products := (products (shop []))(''A'' \<mapsto> lamp\<lparr>stock := stock lamp - amount\<rparr>)\<rparr>))"
    using p by blast
  then have "updateStock (shop []) ''A'' (- 4) = (Inl InsufficientStock, shop [])"
    and "fst (updateStock (shop []) ''A'' (- 3)) = Inr 0"
    by (auto simp: lamp_def dest: spec [of _ 4] spec [of _ 3])
  with h run show ?thesis by simp
qed

section \<open>Order assembly\<close>

lemma getCart_products [simp]: "products (snd (getCart now st identifier)) = products st"
  by (simp add: getCart_def saveCartToRedis_def split: option.splits)

lemma getCart_orders [simp]: "orders (snd (getCart now st identifier)) = orders st"
  by (simp add: getCart_def saveCartToRedis_def split: option.splits)

lemma preSaveHook_valid: "Order_valid doc \<Longrightarrow> preSaveHook generated doc = doc"
  by (auto simp: Order_valid_def preSaveHook_def split: option.splits)

lemma newOrder_rejected:
  "Order_save st (newOrder newId userId orderData orderItems sub shippingCost tx tot)
     = Inl ValidationError"
  by (simp add: Order_save_def Order_valid_def newOrder_def)

text \<open>
  Every call of \<^verbatim>\<open>createOrder\<close> ends in a throw, with the store as the reading of the cart left
  it: an empty cart and a failing line throw in the checking loop, and a cart that passes is
  turned into a document without order number, which \<^verbatim>\<open>save()\<close> rejects.
\<close>

lemma createOrder_throws:
  "\<exists>e. createOrder now st userId orderData = (Inl e, snd (getCart now st userId))"
proof -
  obtain c st1 where g: "getCart now st userId = (c, st1)"
    by (cases "getCart now st userId")
  show ?thesis
  proof (cases "items c = []")
    case True
    with g show ?thesis by (simp add: createOrder_def)
  next
    case nonempty: False
    show ?thesis
    proof (cases "prepareItems st1 (items c) ([], 0)")
      case (Inl e)
      with g nonempty show ?thesis by (simp add: createOrder_def)
    next
      case (Inr r)
      obtain orderItems sub where "r = (orderItems, sub)" by (cases r)
      with Inr g nonempty show ?thesis
        by (simp add: createOrder_def Let_def newOrder_rejected)
    qed
  qed
qed

text \<open>
  Claim C1. For every cart and every failure of \<^verbatim>\<open>createOrder\<close> (empty cart, product missing or
  inactive, stock below the quantity of a line, rejected save), no Order is persisted and
  the available stock of every product is what it was before the call. No decrement is
  applied before any of these failures, so none is left behind.
\<close>

theorem createOrder_failure_changes_nothing:
  assumes fails: "fst (createOrder now st userId orderData) = Inl e"
  shows "orders (snd (createOrder now st userId orderData)) = orders st \<and>
         products (snd (createOrder now st userId orderData)) = products st \<and>
         (\<forall>productId. available (snd (createOrder now st userId orderData)) productId
                        = available st productId)"
proof -
  from createOrder_throws [of now st userId orderData]
  have "snd (createOrder now st userId orderData) = snd (getCart now st userId)"
    by auto
  then show ?thesis
    by (simp add: available_def)
qed

theorem createOrder_failure_changes_nothing_witness:
  "fst (createOrder 10 (shop [(''u1'', [lampLine 2, deskLine 11])]) ''u1'' checkout)
     = Inl (OrderInsufficientStock ''Desk'') \<and>
   orders (snd (createOrder 10 (shop [(''u1'', [lampLine 2, deskLine 11])]) ''u1'' checkout))
     = [] \<and>
   available (snd (createOrder 10 (shop [(''u1'', [lampLine 2, deskLine 11])]) ''u1'' checkout))
     ''A'' = Some 3 \<and>
   fst (createOrder 10 (shop [(''u1'', [lampLine 2, deskLine 1])]) ''u1'' checkout)
     = Inl ValidationError \<and>
   orders (snd (createOrder 10 (shop [(''u1'', [lampLine 2, deskLine 1])]) ''u1'' checkout))
     = [] \<and>
   available (snd (createOrder 10 (shop [(''u1'', [lampLine 2, deskLine 1])]) ''u1'' checkout))
     ''A'' = Some 3 \<and>
   fst (createOrder 10 (shop []) ''u1'' checkout) = Inl CartIsEmpty \<and>
   orders (snd (createOrder 10 (shop []) ''u1'' checkout)) = []"
proof -
  let ?s1 = "shop [(''u1'', [lampLine 2, deskLine 11])]"
  let ?s2 = "shop [(''u1'', [lampLine 2, deskLine 1])]"
  have h1: "fst (createOrder 10 ?s1 ''u1'' checkout) = Inl (OrderInsufficientStock ''Desk'')"
    by (simp add: createOrder_def shop_defs service_defs)
  have h2: "fst (createOrder 10 ?s2 ''u1'' checkout) = Inl ValidationError"
    by (simp add: createOrder_def shop_defs service_defs)
  have h3: "fst (createOrder 10 (shop []) ''u1'' checkout) = Inl CartIsEmpty"
    by (simp add: createOrder_def shop_defs service_defs)
  have before: "orders ?s1 = []" "available ?s1 ''A'' = Some 3"
    "orders ?s2 = []" "available ?s2 ''A'' = Some 3" "orders (shop []) = []"
    by (simp_all add: available_def shop_defs)
  from createOrder_failure_changes_nothing [OF h1] createOrder_failure_changes_nothing [OF h2]
    createOrder_failure_changes_nothing [OF h3] before h1 h2 h3
  show ?thesis by simp
qed


section \<open>Order lifecycle\<close>

lemma updateStatus_keeps_history:
  "statusHistory (updateStatus now this newStatus note) = statusHistory this"
  by (simp add: updateStatus_def Let_def)

lemma updateStatus_sets_deliveredAt:
  "deliveredAt (updateStatus now this Delivered note) = Some now"
  by (simp add: updateStatus_def Let_def)

text \<open>
  Claim C4 says that every \<^verbatim>\<open>updateStatus\<close> call appends an entry to \<open>statusHistory\<close>, which
  grows by one, and that \<open>deliveredAt\<close> is set on delivery. The second part holds
  (\<open>updateStatus_sets_deliveredAt\<close>); the first does not: the method never calls \<^verbatim>\<open>push\<close>
  (\<open>updateStatus_keeps_history\<close>). Marking the pending order 0 as shipped, with a note, sets
  the status and leaves the history of the returned and of the saved document empty.
\<close>

theorem updateOrderStatus_appends_nothing:
  "map status (orders placed) = [Pending] \<and>
   map statusHistory (orders placed) = [[]] \<and>
   (\<exists>doc st'. updateOrderStatus 20 placed 0 Shipped ''left the warehouse'' = (Inr doc, st') \<and>
     status doc = Shipped \<and>
     statusHistory doc = [] \<and>
     map status (orders st') = [Shipped] \<and>
     map statusHistory (orders st') = [[]])"
  by (simp add: placed_def updateOrderStatus_def updateStatus_def Order_findById_def
        Order_save_def Order_valid_def newOrder_def Let_def)

lemma cancelOrder_refused:
  "Order_findById st orderId = Some doc \<Longrightarrow> user doc = userId \<Longrightarrow>
   status doc \<notin> {Pending, Confirmed} \<Longrightarrow>
   cancelOrder now st orderId userId reason = (Inl OrderCannotBeCancelled, st)"
  by (simp add: cancelOrder_def)

lemma restoreStock_orders [simp]: "orders (snd (restoreStock st ois)) = orders st"
proof (induction ois arbitrary: st)
  case Nil
  show ?case by simp
next
  case (Cons oi ois)
  have "orders (snd (updateStock st (oi_product oi) (oi_quantity oi))) = orders st"
    by (simp add: updateStock_def Let_def split: option.splits)
  with Cons.IH show ?case
    by (cases "updateStock st (oi_product oi) (oi_quantity oi)")
       (auto split: sum.splits)
qed

lemma cancelOrder_reason_not_saved:
  assumes "cancelOrder now st orderId userId reason = (Inr (doc, props), st')"
  shows "cancelledReason doc = cancelledReason (orders st ! orderId) \<and>
         Order_save (snd (restoreStock st (order_items (orders st ! orderId)))) doc = Inr st' \<and>
         props = [(''cancelReason'', reason)]"
proof -
  from assms obtain old where old: "Order_findById st orderId = Some old"
    by (auto simp: cancelOrder_def split: option.splits)
  then have i: "old = orders st ! orderId"
    by (auto simp: Order_findById_def split: if_splits)
  from assms old obtain st1 where
    r: "restoreStock st (order_items old) = (None, st1)"
    and doc: "doc = old\<lparr>status := Cancelled, cancelledAt := Some now\<rparr>"
    and props: "props = [(''cancelReason'', reason)]"
    and st': "Order_save st1 doc = Inr st'"
    by (auto simp: cancelOrder_def Let_def
             split: option.splits if_splits prod.splits sum.splits)
  from r doc props st' show ?thesis
    unfolding i by simp
qed

text \<open>
  Claim C3 says that a cancellation is refused unless the order is pending or confirmed, and
  that a successful one restores the stock by each line's quantity, sets the status to
  cancelled, and records \<open>cancelledAt\<close> and the given reason. Cancelling the pending order 0
  (lines \<open>[(A, 2), (B, 1)]\<close>) with a reason restores the lamp from 1 to 3 and the desk from 9 to
  10, sets status and \<open>cancelledAt\<close>, and refuses a second cancellation; but the reason ends
  up in the property \<^verbatim>\<open>cancelReason\<close> of the object in memory, while the schema path
  \<open>cancelledReason\<close> of the returned and of the saved document stays unset.
\<close>

theorem cancelOrder_drops_reason:
  "map status (orders placed) = [Pending] \<and>
   map order_items (orders placed) =
     [[\<lparr>oi_product = ''A'', oi_name = ''Lamp'', oi_quantity = 2, oi_price = 80, oi_total = 160\<rparr>,
       \<lparr>oi_product = ''B'', oi_name = ''Desk'', oi_quantity = 1, oi_price = 450,
         oi_total = 450\<rparr>]] \<and>
   (\<exists>doc props st'. cancelOrder 30 placed 0 ''u1'' ''changed my mind'' = (Inr (doc, props), st') \<and>
     status doc = Cancelled \<and> cancelledAt doc = Some 30 \<and>
     props = [(''cancelReason'', ''changed my mind'')] \<and>
     cancelledReason doc = None \<and>
     map cancelledReason (orders st') = [None] \<and>
     available placed ''A'' = Some 1 \<and> available st' ''A'' = Some 3 \<and>
     available placed ''B'' = Some 9 \<and> available st' ''B'' = Some 10 \<and>
     fst (cancelOrder 40 st' 0 ''u1'' ''again'') = Inl OrderCannotBeCancelled)"
  by (simp add: placed_def cancelOrder_def Order_findById_def Order_save_def Order_valid_def
        available_def updateStock_def newOrder_def lamp_def desk_def Let_def)

section \<open>Cart store\<close>

lemma findIndex_None: "findIndex P xs = None \<longleftrightarrow> (\<forall>x\<in>set xs. \<not> P x)"
  by (induction xs) auto

lemma findIndex_Some:
  "findIndex P xs = Some i \<Longrightarrow> i < length xs \<and> P (xs ! i)"
proof (induction xs arbitrary: i)
  case Nil
  then show ?case by simp
next
  case (Cons x xs)
  show ?case
  proof (cases "P x")
    case True
    with Cons.prems show ?thesis by simp
  next
    case False
    with Cons.prems obtain j where j: "findIndex P xs = Some j" "i = Suc j"
      by auto
    with Cons.IH [of j] show ?thesis by simp
  qed
qed

lemma existingQuantity_absent:
  "findIndex (\<lambda>item. ci_product item = productId) xs = None \<Longrightarrow>
   existingQuantity xs productId = 0"
  by (induction xs) (auto split: if_splits)

lemma existingQuantity_present:
  "findIndex (\<lambda>item. ci_product item = productId) xs = Some i \<Longrightarrow>
   existingQuantity xs productId = ci_quantity (xs ! i)"
proof (induction xs arbitrary: i)
  case Nil
  then show ?case by simp
next
  case (Cons x xs)
  then show ?case by (cases "ci_product x = productId") auto
qed

lemma addLine_spec_absent:
  "findIndex (\<lambda>item. ci_product item = ci_product new) xs = None \<Longrightarrow>
   addLine_spec xs new = xs @ [new]"
  by (induction xs) (auto split: if_splits)

lemma addLine_spec_present:
  "findIndex (\<lambda>item. ci_product item = ci_product new) xs = Some i \<Longrightarrow>
   addLine_spec xs new = xs[i := (xs ! i)\<lparr>ci_quantity := ci_quantity (xs ! i) + ci_quantity new\<rparr>]"
proof (induction xs arbitrary: i)
  case Nil
  then show ?case by simp
next
  case (Cons x xs)
  then show ?case by (cases "ci_product x = ci_product new") auto
qed

lemma existingQuantity_update:
  "findIndex (\<lambda>item. ci_product item = productId) xs = Some i \<Longrightarrow>
   existingQuantity (xs[i := (xs ! i)\<lparr>ci_quantity := q\<rparr>]) productId = q"
proof (induction xs arbitrary: i)
  case Nil
  then show ?case by simp
next
  case (Cons x xs)
  then show ?case by (cases "ci_product x = productId") auto
qed

lemma foldl_plus_sum_list:
  fixes a :: "'b::comm_monoid_add"
  shows "foldl (\<lambda>total item. total + f item) a xs = a + sum_list (map f xs)"
  by (induction xs arbitrary: a) (simp_all add: add.assoc)

lemma calculateCartTotals_ok: "cart_totals_ok (calculateCartTotals now c)"
  by (simp add: cart_totals_ok_def calculateCartTotals_def doubleSum_def foldl_plus_sum_list
        foldl_map)

lemma calculateCartTotals_items [simp]: "items (calculateCartTotals now c) = items c"
  by (simp add: calculateCartTotals_def)

text \<open>
  Claim C8. For a quantity of at least 1 and a cart whose lines hold at least 1 each,
  \<^verbatim>\<open>addToCart\<close> throws "Product not found" when the product is missing or inactive, throws
  "Insufficient stock" when the stock is below the quantity the cart already holds for the
  product plus the requested one, and otherwise adds the quantity to the existing line or
  appends a new line whose unit price is the product's current final price (the discount
  price when the product has one, the list price otherwise), recomputes the totals from the
  lines and writes the cart back.
\<close>

theorem addToCart_semantics:
  assumes q: "1 \<le> quantity"
      and g: "getCart now st identifier = (c, st1)"
      and lines: "\<forall>item\<in>set (items c). 1 \<le> ci_quantity item"
  shows "case products st productId of
           None \<Rightarrow> addToCart now st identifier productId quantity = (Inl ProductNotFound, st)
         | Some p \<Rightarrow>
             if \<not> isActive p
             then addToCart now st identifier productId quantity = (Inl ProductNotFound, st)
             else if stock p < existingQuantity (items c) productId + quantity
             then fst (addToCart now st identifier productId quantity) = Inl InsufficientStock
             else (\<exists>c'. addToCart now st identifier productId quantity =
                          (Inr c', saveCartToRedis now st1 identifier c') \<and>
                        items c' = addLine_spec (items c)
                          \<lparr>ci_product = productId, ci_name = name p,
                            ci_price = (if discountPrice p \<noteq> 0 then discountPrice p else price p),
                            ci_quantity = quantity, ci_image = firstImage p\<rparr> \<and>
                        cart_totals_ok c')"
proof (cases "products st productId")
  case None
  then show ?thesis by (simp add: addToCart_def)
next
  case (Some p)
  let ?new = "\<lparr>ci_product = productId, ci_name = name p,
                ci_price = (if discountPrice p \<noteq> 0 then discountPrice p else price p),
                ci_quantity = quantity, ci_image = firstImage p\<rparr>"
  show ?thesis
  proof (cases "isActive p")
    case False
    with Some show ?thesis by (simp add: addToCart_def)
  next
    case active: True
    show ?thesis
    proof (cases "findIndex (\<lambda>item. ci_product item = productId) (items c)")
      case None
      have e: "existingQuantity (items c) productId = 0"
        using None by (rule existingQuantity_absent)
      have m: "addLine_spec (items c) ?new = items c @ [?new]"
        using None addLine_spec_absent [of ?new "items c"] by simp
      show ?thesis
        using Some active None g e m
        by (simp add: addToCart_def Let_def calculateCartTotals_ok finalPrice_def)
    next
      case (Some i)
      have e: "existingQuantity (items c) productId = ci_quantity (items c ! i)"
        using Some by (rule existingQuantity_present)
      have m: "addLine_spec (items c) ?new =
                 (items c)[i := (items c ! i)\<lparr>ci_quantity := ci_quantity (items c ! i) + quantity\<rparr>]"
        using Some addLine_spec_present [of ?new "items c" i] by simp
      have "items c ! i \<in> set (items c)"
        using findIndex_Some [OF Some] by simp
      with lines have pos: "1 \<le> ci_quantity (items c ! i)" by blast
      show ?thesis
        using \<open>products st productId = Some p\<close> active Some g e m pos q
        by (auto simp: addToCart_def Let_def calculateCartTotals_ok)
    qed
  qed
qed

theorem addToCart_semantics_witness:
  "(1::int) \<le> 2 \<and> (1::int) \<le> 10 \<and>
   getCart 10 (shop [(''u1'', [deskLine 1])]) ''u1''
     = (cartOf [deskLine 1], shop [(''u1'', [deskLine 1])]) \<and>
   map ci_quantity (items (cartOf [deskLine 1])) = [1] \<and>
   price lamp = 100 \<and> discountPrice lamp = 80 \<and>
   (\<exists>c'. addToCart 10 (shop [(''u1'', [deskLine 1])]) ''u1'' ''A'' 2
            = (Inr c', saveCartToRedis 10 (shop [(''u1'', [deskLine 1])]) ''u1'' c') \<and>
         items c' = [deskLine 1,
                     \<lparr>ci_product = ''A'', ci_name = ''Lamp'', ci_price = 80, ci_quantity = 2,
                       ci_image = Some ''lamp.png''\<rparr>] \<and>
         totalItems c' = 3 \<and> totalAmount c' = 610) \<and>
   (\<exists>c'. addToCart 10 (shop [(''u1'', [deskLine 1])]) ''u1'' ''B'' 2
            = (Inr c', saveCartToRedis 10 (shop [(''u1'', [deskLine 1])]) ''u1'' c') \<and>
         items c' = [deskLine 3] \<and> totalItems c' = 3 \<and> totalAmount c' = 1350) \<and>
   fst (addToCart 10 (shop [(''u1'', [deskLine 1])]) ''u1'' ''B'' 10) = Inl InsufficientStock \<and>
   addToCart 10 (shop [(''u1'', [deskLine 1])]) ''u1'' ''Z'' 2
     = (Inl ProductNotFound, shop [(''u1'', [deskLine 1])])"
proof -
  let ?st = "shop [(''u1'', [deskLine 1])]"
  have h1: "(1::int) \<le> 2" and h1': "(1::int) \<le> 10" by simp_all
  have h2: "getCart 10 ?st ''u1'' = (cartOf [deskLine 1], ?st)"
    by (simp add: getCart_def redis_get_def shop_def)
  have qs: "map ci_quantity (items (cartOf [deskLine 1])) = [1]"
    by (simp add: cartOf_def deskLine_def)
  have h3: "\<forall>item\<in>set (items (cartOf [deskLine 1])). 1 \<le> ci_quantity item"
    by (simp add: cartOf_def deskLine_def)
  have pa: "products ?st ''A'' = Some lamp" and pb: "products ?st ''B'' = Some desk"
    and pz: "products ?st ''Z'' = None"
    by (simp_all add: shop_def)
  have lp: "price lamp = 100" "discountPrice lamp = 80"
    by (simp_all add: lamp_def)
  have ea: "existingQuantity (items (cartOf [deskLine 1])) ''A'' = 0"
    and eb: "existingQuantity (items (cartOf [deskLine 1])) ''B'' = 1"
    by (simp_all add: cartOf_def deskLine_def)
  from addToCart_semantics [OF h1 h2 h3, of "''A''"] pa ea
  obtain ca where ca: "addToCart 10 ?st ''u1'' ''A'' 2 = (Inr ca, saveCartToRedis 10 ?st ''u1'' ca)"
    "items ca = addLine_spec (items (cartOf [deskLine 1]))
        \<lparr>ci_product = ''A'', ci_name = name lamp,
          ci_price = (if discountPrice lamp \<noteq> 0 then discountPrice lamp else price lamp),
          ci_quantity = 2, ci_image = firstImage lamp\<rparr>"
    "cart_totals_ok ca"
    by (auto simp: lamp_def)
  from ca(2) have ia: "items ca = [deskLine 1,
                     \<lparr>ci_product = ''A'', ci_name = ''Lamp'', ci_price = 80, ci_quantity = 2,
                       ci_image = Some ''lamp.png''\<rparr>]"
    by (simp add: cartOf_def deskLine_def lamp_def firstImage_def)
  with ca(3) have ta: "totalItems ca = 3 \<and> totalAmount ca = 610"
    by (simp add: cart_totals_ok_def doubleSum_def num_add_def num_mul_def deskLine_def)
  from addToCart_semantics [OF h1 h2 h3, of "''B''"] pb eb
  obtain cb where cb: "addToCart 10 ?st ''u1'' ''B'' 2 = (Inr cb, saveCartToRedis 10 ?st ''u1'' cb)"
    "items cb = addLine_spec (items (cartOf [deskLine 1]))
        \<lparr>ci_product = ''B'', ci_name = name desk,
          ci_price = (if discountPrice desk \<noteq> 0 then discountPrice desk else price desk),
          ci_quantity = 2, ci_image = firstImage desk\<rparr>"
    "cart_totals_ok cb"
    by (auto simp: desk_def)
  from cb(2) have ib: "items cb = [deskLine 3]"
    by (simp add: cartOf_def deskLine_def)
  with cb(3) have tb: "totalItems cb = 3 \<and> totalAmount cb = 1350"
    by (simp add: cart_totals_ok_def doubleSum_def num_add_def num_mul_def deskLine_def)
  from addToCart_semantics [OF h1' h2 h3, of "''B''"] pb eb
  have third: "fst (addToCart 10 ?st ''u1'' ''B'' 10) = Inl InsufficientStock"
    by (simp add: desk_def)
  from addToCart_semantics [OF h1 h2 h3, of "''Z''"] pz
  have fourth: "addToCart 10 ?st ''u1'' ''Z'' 2 = (Inl ProductNotFound, ?st)"
    by simp
  have first: "\<exists>c'. addToCart 10 ?st ''u1'' ''A'' 2 = (Inr c', saveCartToRedis 10 ?st ''u1'' c') \<and>
         items c' = [deskLine 1,
                     \<lparr>ci_product = ''A'', ci_name = ''Lamp'', ci_price = 80, ci_quantity = 2,
                       ci_image = Some ''lamp.png''\<rparr>] \<and>
         totalItems c' = 3 \<and> totalAmount c' = 610"
    using ca(1) ia ta by (intro exI [of _ ca]) simp
  have second: "\<exists>c'. addToCart 10 ?st ''u1'' ''B'' 2 = (Inr c', saveCartToRedis 10 ?st ''u1'' c') \<and>
         items c' = [deskLine 3] \<and> totalItems c' = 3 \<and> totalAmount c' = 1350"
    using cb(1) ib tb by (intro exI [of _ cb]) simp
  from h1 h1' h2 qs lp first second third fourth show ?thesis by (intro conjI)
qed

text \<open>
  Claim C10. When the product of a cart line is no longer in the catalog, \<^verbatim>\<open>updateCartItem\<close>
  with a positive quantity checks no stock: it succeeds for every such quantity and the cart
  then holds that quantity for the product.
\<close>

theorem updateCartItem_missing_product_unchecked:
  assumes g: "getCart now st identifier = (c, st1)"
      and present: "productId \<in> ci_product ` set (items c)"
      and gone: "products st productId = None"
      and q: "0 < quantity"
  shows "\<exists>c'. updateCartItem now st identifier productId quantity =
                 (Inr c', saveCartToRedis now st1 identifier c') \<and>
               existingQuantity (items c') productId = quantity \<and>
               length (items c') = length (items c) \<and>
               cart_totals_ok c'"
proof -
  from present have "findIndex (\<lambda>item. ci_product item = productId) (items c) \<noteq> None"
    by (auto simp: findIndex_None)
  then obtain i where i: "findIndex (\<lambda>item. ci_product item = productId) (items c) = Some i"
    by auto
  have "products st1 = products st"
    using getCart_products [of now st "identifier"] g by simp
  with gone have gone1: "products st1 productId = None" by simp
  let ?c' = "calculateCartTotals now
               (c\<lparr>items := (items c)[i := (items c ! i)\<lparr>ci_quantity := quantity\<rparr>]\<rparr>)"
  have "updateCartItem now st identifier productId quantity =
          (Inr ?c', saveCartToRedis now st1 identifier ?c')"
    using g i gone1 q by (simp add: updateCartItem_def Let_def)
  moreover have "existingQuantity (items ?c') productId = quantity"
    using existingQuantity_update [OF i] by simp
  moreover have "length (items ?c') = length (items c)" by simp
  moreover have "cart_totals_ok ?c'" by (rule calculateCartTotals_ok)
  ultimately show ?thesis by blast
qed

theorem updateCartItem_missing_product_unchecked_witness:
  "getCart 10 ((shop [(''u1'', [lampLine 1])])\<lparr>products := [''B'' \<mapsto> desk]\<rparr>) ''u1''
     = (cartOf [lampLine 1], (shop [(''u1'', [lampLine 1])])\<lparr>products := [''B'' \<mapsto> desk]\<rparr>) \<and>
   ''A'' \<in> ci_product ` set (items (cartOf [lampLine 1])) \<and>
   products ((shop [(''u1'', [lampLine 1])])\<lparr>products := [''B'' \<mapsto> desk]\<rparr>) ''A'' = None \<and>
   (0::int) < 1000 \<and>
   (\<exists>c'. fst (updateCartItem 10 ((shop [(''u1'', [lampLine 1])])\<lparr>products := [''B'' \<mapsto> desk]\<rparr>)
                ''u1'' ''A'' 1000) = Inr c' \<and>
         existingQuantity (items c') ''A'' = 1000)"
proof -
  let ?st = "(shop [(''u1'', [lampLine 1])])\<lparr>products := [''B'' \<mapsto> desk]\<rparr>"
  have h1: "getCart 10 ?st ''u1'' = (cartOf [lampLine 1], ?st)"
    by (simp add: getCart_def redis_get_def shop_def)
  have h2: "''A'' \<in> ci_product ` set (items (cartOf [lampLine 1]))"
    by (simp add: cartOf_def lampLine_def)
  have h3: "products ?st ''A'' = None" by simp
  have h4: "(0::int) < 1000" by simp
  from updateCartItem_missing_product_unchecked [OF h1 h2 h3 h4]
  have "\<exists>c'. fst (updateCartItem 10 ?st ''u1'' ''A'' 1000) = Inr c' \<and>
         existingQuantity (items c') ''A'' = 1000"
    by auto
  with h1 h2 h3 h4 show ?thesis by (intro conjI)
qed

text \<open>
  Claim C5, as the code has it. For a product id that is not in the actor's cart,
  \<^verbatim>\<open>updateCartItem\<close> throws "Product not found in cart" for every quantity, also for 0 and
  below, and writes no cart; \<^verbatim>\<open>removeFromCart\<close> succeeds and writes the cart back with the same
  lines, a new \<open>lastUpdated\<close> and expiry, and the same totals when they were consistent.
\<close>

theorem absent_line_update_and_removal:
  assumes g: "getCart now st identifier = (c, st1)"
      and absent: "productId \<notin> ci_product ` set (items c)"
  shows "updateCartItem now st identifier productId quantity = (Inl ProductNotFoundInCart, st1) \<and>
         (\<exists>c'. removeFromCart now st identifier productId =
                  (Inr c', saveCartToRedis now st1 identifier c') \<and>
                items c' = items c \<and>
                lastUpdated c' = now \<and>
                (cart_totals_ok c \<longrightarrow>
                   totalAmount c' = totalAmount c \<and> totalItems c' = totalItems c))"
proof -
  from absent have none: "findIndex (\<lambda>item. ci_product item = productId) (items c) = None"
    by (auto simp: findIndex_None)
  have upd: "updateCartItem now st identifier productId quantity
               = (Inl ProductNotFoundInCart, st1)"
    using g none by (simp add: updateCartItem_def)
  from absent have keep: "filter (\<lambda>item. ci_product item \<noteq> productId) (items c) = items c"
    by (auto simp: filter_id_conv)
  let ?c' = "calculateCartTotals now (c\<lparr>items := items c\<rparr>)"
  have rem: "removeFromCart now st identifier productId =
               (Inr ?c', saveCartToRedis now st1 identifier ?c')"
    using g keep by (simp add: removeFromCart_def Let_def)
  have ok: "cart_totals_ok ?c'" by (rule calculateCartTotals_ok)
  have "items ?c' = items c" by simp
  moreover have "lastUpdated ?c' = now" by (simp add: calculateCartTotals_def)
  moreover have "cart_totals_ok c \<longrightarrow>
                   totalAmount ?c' = totalAmount c \<and> totalItems ?c' = totalItems c"
    using ok by (simp add: cart_totals_ok_def)
  ultimately show ?thesis using upd rem by blast
qed

theorem absent_line_update_and_removal_witness:
  "getCart 10 (shop [(''u1'', [lampLine 1])]) ''u1''
     = (cartOf [lampLine 1], shop [(''u1'', [lampLine 1])]) \<and>
   ''B'' \<notin> ci_product ` set (items (cartOf [lampLine 1])) \<and>
   updateCartItem 10 (shop [(''u1'', [lampLine 1])]) ''u1'' ''B'' (- 1)
     = (Inl ProductNotFoundInCart, shop [(''u1'', [lampLine 1])]) \<and>
   (\<exists>c'. fst (removeFromCart 10 (shop [(''u1'', [lampLine 1])]) ''u1'' ''B'') = Inr c' \<and>
         items c' = [lampLine 1] \<and> totalItems c' = 1 \<and> totalAmount c' = 70 \<and>
         lastUpdated c' = 10)"
proof -
  let ?st = "shop [(''u1'', [lampLine 1])]"
  have h1: "getCart 10 ?st ''u1'' = (cartOf [lampLine 1], ?st)"
    by (simp add: getCart_def redis_get_def shop_def)
  have h2: "''B'' \<notin> ci_product ` set (items (cartOf [lampLine 1]))"
    by (simp add: cartOf_def lampLine_def)
  have ok: "cart_totals_ok (cartOf [lampLine 1])"
    unfolding cartOf_def by (rule calculateCartTotals_ok)
  have c: "items (cartOf [lampLine 1]) = [lampLine 1]" "totalItems (cartOf [lampLine 1]) = 1"
    "totalAmount (cartOf [lampLine 1]) = 70"
    by (simp_all add: cartOf_def calculateCartTotals_def num_add_def num_mul_def lampLine_def)
  from absent_line_update_and_removal [OF h1 h2, of "- 1"] ok c
  have "updateCartItem 10 ?st ''u1'' ''B'' (- 1) = (Inl ProductNotFoundInCart, ?st)"
    and "\<exists>c'. fst (removeFromCart 10 ?st ''u1'' ''B'') = Inr c' \<and>
         items c' = [lampLine 1] \<and> totalItems c' = 1 \<and> totalAmount c' = 70 \<and>
         lastUpdated c' = 10"
    by auto
  with h1 h2 show ?thesis by (intro conjI)
qed

text \<open>
  The claim as stated fails for \<^verbatim>\<open>updateCartItem\<close>: the test for a missing line comes before
  the test of the quantity, so quantity 0 (or -1) on the absent product \<open>B\<close> is an error, not
  a no-op.
\<close>

theorem updateCartItem_absent_line_counterexample:
  "''B'' \<notin> ci_product ` set (items (fst (getCart 10 (shop [(''u1'', [lampLine 1])]) ''u1''))) \<and>
   fst (updateCartItem 10 (shop [(''u1'', [lampLine 1])]) ''u1'' ''B'' 0)
     = Inl ProductNotFoundInCart \<and>
   fst (updateCartItem 10 (shop [(''u1'', [lampLine 1])]) ''u1'' ''B'' (- 1))
     = Inl ProductNotFoundInCart"
  by (simp add: updateCartItem_def shop_defs service_defs)

section \<open>Totals of the stored carts\<close>





















section \<open>Cart merge\<close>

lemma getCart_idem:
  "getCart now (snd (getCart now st identifier)) identifier = getCart now st identifier"
  by (simp add: getCart_def redis_get_def saveCartToRedis_def split: option.splits prod.splits)

lemma getCart_cached:
  "getCart now st identifier = (c, st1) \<Longrightarrow> redis_get now st1 identifier = Some c"
  by (auto simp: getCart_def redis_get_def saveCartToRedis_def split: option.splits prod.splits
           if_splits)

lemma getCart_redis_other:
  "key \<noteq> identifier \<Longrightarrow> redis (snd (getCart now st identifier)) key = redis st key"
  by (simp add: getCart_def saveCartToRedis_def split: option.splits)

lemma addToCart_redis_other:
  "key \<noteq> identifier \<Longrightarrow>
   redis (snd (addToCart now st identifier productId quantity)) key = redis st key"
proof -
  assume k: "key \<noteq> identifier"
  obtain c st1 where g: "getCart now st identifier = (c, st1)"
    by (cases "getCart now st identifier")
  have "redis st1 key = redis st key"
    using getCart_redis_other [OF k, of now st] g by simp
  then show ?thesis
    using g k
    by (auto simp: addToCart_def Let_def saveCartToRedis_def split: option.splits)
qed

lemma mergeItems_redis_other:
  "key \<noteq> userId \<Longrightarrow> redis (snd (mergeItems now st userId ls)) key = redis st key"
proof (induction ls arbitrary: st)
  case Nil
  show ?case by simp
next
  case (Cons item ls)
  let ?r = "addToCart now st userId (ci_product item) (ci_quantity item)"
  have a: "redis (snd ?r) key = redis st key"
    using Cons.prems by (rule addToCart_redis_other)
  show ?case
  proof (cases "fst ?r")
    case (Inl e)
    then show ?thesis using a by (cases ?r) simp
  next
    case (Inr c)
    then show ?thesis using a Cons.IH [OF Cons.prems, of "snd ?r"] by (cases ?r) simp
  qed
qed

lemma addToCart_failure_keeps_cart:
  assumes "addToCart now st identifier productId quantity = (Inl e, st')"
  shows "getCart now st' identifier = getCart now st identifier"
proof -
  obtain c st1 where g: "getCart now st identifier = (c, st1)"
    by (cases "getCart now st identifier")
  from assms g have "st' = st \<or> st' = st1"
    by (auto simp: addToCart_def Let_def split: option.splits if_splits)
  then show ?thesis
  proof
    assume "st' = st"
    then show ?thesis by simp
  next
    assume "st' = st1"
    then show ?thesis
      using getCart_idem [of now st "identifier"] g by simp
  qed
qed

lemma mergeItems_first_failure:
  "mergeItems now st userId pre = (None, st2) \<Longrightarrow>
   addToCart now st2 userId (ci_product item) (ci_quantity item) = (Inl e, st3) \<Longrightarrow>
   mergeItems now st userId (pre @ item # post) = (Some e, st3)"
proof (induction pre arbitrary: st)
  case Nil
  then show ?case by simp
next
  case (Cons x pre)
  let ?r = "addToCart now st userId (ci_product x) (ci_quantity x)"
  from Cons.prems(1) obtain c st1 where r: "?r = (Inr c, st1)"
    by (cases ?r; cases "fst ?r") auto
  with Cons.prems(1) have "mergeItems now st1 userId pre = (None, st2)"
    by simp
  from Cons.IH [OF this Cons.prems(2)] r show ?case
    by simp
qed

text \<open>
  Claim C6, as the code has it. \<^verbatim>\<open>mergeCart\<close> applies \<^verbatim>\<open>addToCart\<close> to the lines of the session
  cart in order and stops at the first line that fails: the answer is the one error response
  (status 500, no per-line list), the lines before the failing one stay in the user's cart,
  the failing line and the lines after it are not added, and the session cart is not
  cleared. When no line fails, every line is added, the session cart is cleared and the
  user's cart is returned.
\<close>

theorem mergeCart_stops_at_first_failure:
  assumes sid: "sid \<noteq> []"
      and g: "getCart now st sid = (sc, st1)"
  shows "(\<forall>pre item post st2 e st3.
            items sc = pre @ item # post \<and>
            mergeItems now st1 userId pre = (None, st2) \<and>
            addToCart now st2 userId (ci_product item) (ci_quantity item) = (Inl e, st3) \<longrightarrow>
            mergeCart now st userId (Some sid) = (MergeError, st3) \<and>
            getCart now st3 userId = getCart now st2 userId \<and>
            (sid \<noteq> userId \<longrightarrow> redis_get now st3 sid = Some sc)) \<and>
         (\<forall>st2. items sc \<noteq> [] \<and> mergeItems now st1 userId (items sc) = (None, st2) \<longrightarrow>
            mergeCart now st userId (Some sid) =
              (MergeSuccess (fst (getCart now (snd (clearCart now st2 sid)) userId)),
               snd (getCart now (snd (clearCart now st2 sid)) userId)))"
proof (intro conjI allI impI)
  fix pre item post st2 e st3
  assume a: "items sc = pre @ item # post \<and>
            mergeItems now st1 userId pre = (None, st2) \<and>
            addToCart now st2 userId (ci_product item) (ci_quantity item) = (Inl e, st3)"
  then have m: "mergeItems now st1 userId (items sc) = (Some e, st3)"
    using mergeItems_first_failure [of now st1 userId pre st2 item e st3 post] by simp
  from a have "items sc \<noteq> []" by simp
  with sid g m show "mergeCart now st userId (Some sid) = (MergeError, st3)"
    by (simp add: mergeCart_def)
  from a show "getCart now st3 userId = getCart now st2 userId"
    by (auto intro: addToCart_failure_keeps_cart)
  show "redis_get now st3 sid = Some sc" if ne: "sid \<noteq> userId"
  proof -
    have "redis st3 sid = redis st1 sid"
      using mergeItems_redis_other [OF ne, of now st1 "items sc"] m by simp
    then have "redis_get now st3 sid = redis_get now st1 sid"
      by (simp add: redis_get_def)
    with getCart_cached [OF g] show ?thesis by simp
  qed
next
  fix st2
  assume "items sc \<noteq> [] \<and> mergeItems now st1 userId (items sc) = (None, st2)"
  with sid g show "mergeCart now st userId (Some sid) =
              (MergeSuccess (fst (getCart now (snd (clearCart now st2 sid)) userId)),
               snd (getCart now (snd (clearCart now st2 sid)) userId))"
    by (simp add: mergeCart_def Let_def split: prod.splits)
qed

text \<open>
  The claim as stated fails: a failing line is not skipped. The session cart holds 5 lamps
  (stock 3) and then 1 desk (stock 10). Adding the desk alone would succeed, but the merge
  answers with the error, the user's cart has no line, and the session cart still holds both
  lines.
\<close>

theorem mergeCart_aborts_counterexample:
  "getCart 10 (shop [(''s1'', [lampLine 5, deskLine 1])]) ''s1''
     = (cartOf [lampLine 5, deskLine 1], shop [(''s1'', [lampLine 5, deskLine 1])]) \<and>
   fst (addToCart 10 (shop [(''s1'', [lampLine 5, deskLine 1])]) ''u1'' ''A'' 5)
     = Inl InsufficientStock \<and>
   (\<exists>c. fst (addToCart 10 (shop [(''s1'', [lampLine 5, deskLine 1])]) ''u1'' ''B'' 1) = Inr c) \<and>
   fst (mergeCart 10 (shop [(''s1'', [lampLine 5, deskLine 1])]) ''u1'' (Some ''s1''))
     = MergeError \<and>
   items (fst (getCart 10
      (snd (mergeCart 10 (shop [(''s1'', [lampLine 5, deskLine 1])]) ''u1'' (Some ''s1'')))
      ''u1'')) = [] \<and>
   redis_get 10
      (snd (mergeCart 10 (shop [(''s1'', [lampLine 5, deskLine 1])]) ''u1'' (Some ''s1'')))
      ''s1'' = Some (cartOf [lampLine 5, deskLine 1])"
  by (simp add: mergeCart_def addToCart_def clearCart_def shop_defs service_defs)

theorem mergeCart_stops_at_first_failure_witness:
  "''s1'' \<noteq> [] \<and>
   getCart 10 (shop [(''s1'', [deskLine 1, lampLine 5])]) ''s1''
     = (cartOf [deskLine 1, lampLine 5], shop [(''s1'', [deskLine 1, lampLine 5])]) \<and>
   (\<exists>st2 st3.
      mergeItems 10 (shop [(''s1'', [deskLine 1, lampLine 5])]) ''u1'' [deskLine 1] = (None, st2) \<and>
      addToCart 10 st2 ''u1'' ''A'' 5 = (Inl InsufficientStock, st3) \<and>
      mergeCart 10 (shop [(''s1'', [deskLine 1, lampLine 5])]) ''u1'' (Some ''s1'')
        = (MergeError, st3) \<and>
      map ci_product (items (fst (getCart 10 st3 ''u1''))) = [''B''] \<and>
      redis_get 10 st3 ''s1'' = Some (cartOf [deskLine 1, lampLine 5])) \<and>
   getCart 10 (shop [(''s1'', [deskLine 1, lampLine 2])]) ''s1''
     = (cartOf [deskLine 1, lampLine 2], shop [(''s1'', [deskLine 1, lampLine 2])]) \<and>
   (\<exists>st2 c st4.
      mergeItems 10 (shop [(''s1'', [deskLine 1, lampLine 2])]) ''u1'' [deskLine 1, lampLine 2]
        = (None, st2) \<and>
      mergeCart 10 (shop [(''s1'', [deskLine 1, lampLine 2])]) ''u1'' (Some ''s1'')
        = (MergeSuccess c, st4) \<and>
      map ci_product (items c) = [''B'', ''A''] \<and>
      redis_get 10 st4 ''s1'' = Some (emptyCart 10))"
proof -
  let ?S1 = "shop [(''s1'', [deskLine 1, lampLine 5])]"
  let ?S2 = "shop [(''s1'', [deskLine 1, lampLine 2])]"
  have h1: "''s1'' \<noteq> []" by simp
  have g1: "getCart 10 ?S1 ''s1'' = (cartOf [deskLine 1, lampLine 5], ?S1)"
    by (simp add: getCart_def redis_get_def shop_def)
  have g2: "getCart 10 ?S2 ''s1'' = (cartOf [deskLine 1, lampLine 2], ?S2)"
    by (simp add: getCart_def redis_get_def shop_def)
  have i1: "items (cartOf [deskLine 1, lampLine 5]) = [deskLine 1] @ lampLine 5 # []"
    and i2: "items (cartOf [deskLine 1, lampLine 2]) = [deskLine 1, lampLine 2]"
    by (simp_all add: cartOf_def)
  define st2 where "st2 = snd (mergeItems 10 ?S1 ''u1'' [deskLine 1])"
  define st3 where "st3 = snd (addToCart 10 st2 ''u1'' ''A'' 5)"
  have "fst (mergeItems 10 ?S1 ''u1'' [deskLine 1]) = None"
    by (simp add: addToCart_def shop_defs service_defs)
  then have m1: "mergeItems 10 ?S1 ''u1'' [deskLine 1] = (None, st2)"
    by (simp add: st2_def prod_eq_iff)
  have "fst (addToCart 10 st2 ''u1'' ''A'' 5) = Inl InsufficientStock"
    by (simp add: st2_def addToCart_def shop_defs service_defs)
  then have a1: "addToCart 10 st2 ''u1'' (ci_product (lampLine 5)) (ci_quantity (lampLine 5))
                   = (Inl InsufficientStock, st3)"
    by (simp add: st3_def prod_eq_iff lampLine_def)
  have neq: "''s1'' \<noteq> ''u1''" by simp
  from mergeCart_stops_at_first_failure [OF h1 g1, of "''u1''", THEN conjunct1, rule_format,
      of "[deskLine 1]" "lampLine 5" "[]" st2 InsufficientStock st3] i1 m1 a1 neq
  have f: "mergeCart 10 ?S1 ''u1'' (Some ''s1'') = (MergeError, st3)"
    "getCart 10 st3 ''u1'' = getCart 10 st2 ''u1''"
    "redis_get 10 st3 ''s1'' = Some (cartOf [deskLine 1, lampLine 5])"
    by simp_all
  have "map ci_product (items (fst (getCart 10 st2 ''u1''))) = [''B'']"
    by (simp add: st2_def addToCart_def shop_defs service_defs)
  with f(2) have u: "map ci_product (items (fst (getCart 10 st3 ''u1''))) = [''B'']"
    by simp
  have first: "\<exists>st2 st3.
      mergeItems 10 ?S1 ''u1'' [deskLine 1] = (None, st2) \<and>
      addToCart 10 st2 ''u1'' ''A'' 5 = (Inl InsufficientStock, st3) \<and>
      mergeCart 10 ?S1 ''u1'' (Some ''s1'') = (MergeError, st3) \<and>
      map ci_product (items (fst (getCart 10 st3 ''u1''))) = [''B''] \<and>
      redis_get 10 st3 ''s1'' = Some (cartOf [deskLine 1, lampLine 5])"
    using m1 a1 f(1) u f(3)
    by (intro exI [of _ st2] exI [of _ st3]) (simp add: lampLine_def)
  define t2 where "t2 = snd (mergeItems 10 ?S2 ''u1'' [deskLine 1, lampLine 2])"
  have "fst (mergeItems 10 ?S2 ''u1'' [deskLine 1, lampLine 2]) = None"
    by (simp add: addToCart_def shop_defs service_defs)
  then have m2: "mergeItems 10 ?S2 ''u1'' [deskLine 1, lampLine 2] = (None, t2)"
    by (simp add: t2_def prod_eq_iff)
  define c where "c = fst (getCart 10 (snd (clearCart 10 t2 ''s1'')) ''u1'')"
  define t4 where "t4 = snd (getCart 10 (snd (clearCart 10 t2 ''s1'')) ''u1'')"
  from mergeCart_stops_at_first_failure [OF h1 g2, of "''u1''", THEN conjunct2, rule_format,
      of t2] i2 m2
  have s: "mergeCart 10 ?S2 ''u1'' (Some ''s1'') = (MergeSuccess c, t4)"
    by (simp add: c_def t4_def)
  have pc: "map ci_product (items c) = [''B'', ''A'']"
    by (simp add: c_def t2_def addToCart_def clearCart_def shop_defs service_defs)
  have rc: "redis_get 10 t4 ''s1'' = Some (emptyCart 10)"
    by (simp add: t4_def t2_def addToCart_def clearCart_def shop_defs service_defs)
  have second: "\<exists>st2 c st4.
      mergeItems 10 ?S2 ''u1'' [deskLine 1, lampLine 2] = (None, st2) \<and>
      mergeCart 10 ?S2 ''u1'' (Some ''s1'') = (MergeSuccess c, st4) \<and>
      map ci_product (items c) = [''B'', ''A''] \<and>
      redis_get 10 st4 ''s1'' = Some (emptyCart 10)"
    using m2 s pc rc by (intro exI [of _ t2] exI [of _ c] exI [of _ t4]) simp
  from h1 g1 first g2 second show ?thesis by (intro conjI)
qed

end
